theory Spec2Isabelle
  imports Complex_Main "HOL-Library.Word"
begin

section \<open>JavaScript values\<close>

text \<open>
  A JavaScript string is a sequence of 16-bit code units. \<open>js\<close> writes an ASCII
  literal as such a sequence.
\<close>

type_synonym code_unit = "16 word"
type_synonym jsstring = "code_unit list"

definition js :: "string \<Rightarrow> jsstring" where
  "js s = map of_char s"

text \<open>
  The values the components handle: what \<open>JSON.parse\<close> produces, and \<open>undefined\<close>,
  which reading a missing property produces. A number is an IEEE-754 double; \<open>JNum r\<close>
  stands for the double that the decimal literal of value \<open>r\<close> rounds to. The code never
  calculates with such a number: it only tests it against zero (\<open>is_zero\<close>).
  An object is the list of its members, each key once.
\<close>

datatype jsval =
    JUndefined
  | JNull
  | JBool bool
  | JNum rat
  | JStr jsstring
  | JArr "jsval list"
  | JObj "(jsstring \<times> jsval) list"

text \<open>
  The value \<open>r\<close> rounds to the double \<open>+0\<close> or \<open>-0\<close> exactly when its magnitude is at
  most half the smallest subnormal, \<open>2\<^sup>-\<^sup>1\<^sup>0\<^sup>7\<^sup>4\<close> (a tie goes to the even mantissa, zero).
\<close>

definition is_zero :: "rat \<Rightarrow> bool" where
  "is_zero r \<longleftrightarrow> \<bar>r\<bar> \<le> 1 / 2 ^ 1075"

text \<open>\<open>ToBoolean\<close>: the falsy values are \<open>undefined\<close>, \<open>null\<close>, \<open>false\<close>, zero and the empty string.\<close>

fun truthy :: "jsval \<Rightarrow> bool" where
  "truthy JUndefined = False"
| "truthy JNull = False"
| "truthy (JBool b) = b"
| "truthy (JNum r) = (\<not> is_zero r)"
| "truthy (JStr s) = (s \<noteq> [])"
| "truthy (JArr xs) = True"
| "truthy (JObj kvs) = True"

text \<open>What the code throws, or an awaited call rejects with.\<close>

datatype error =
    Error jsstring \<comment> \<open>\<open>new Error(message)\<close>\<close>
  | TypeError \<comment> \<open>a property of \<open>null\<close> or \<open>undefined\<close> is read, or a non-function is called\<close>
  | SyntaxError \<comment> \<open>\<open>JSON.parse\<close> on a text that is not JSON\<close>
  | Rejected jsstring \<comment> \<open>a failure reported by a collaborator outside the repository\<close>

definition own_property :: "(jsstring \<times> jsval) list \<Rightarrow> jsstring \<Rightarrow> jsval" where
  "own_property kvs k = (case map_of kvs k of None \<Rightarrow> JUndefined | Some v \<Rightarrow> v)"

text \<open>
  \<open>v.k\<close> for a property name \<open>k\<close> that no built-in prototype defines and that is neither
  \<open>length\<close> nor an index (the names the components read: \<open>candidates\<close>, \<open>content\<close>,
  \<open>parts\<close>, \<open>text\<close>, \<open>options\<close>, \<open>correct_answer\<close>, \<open>difficulty\<close>): a primitive or an array
  has no such property, \<open>null\<close> and \<open>undefined\<close> throw.
\<close>

fun get :: "jsval \<Rightarrow> jsstring \<Rightarrow> error + jsval" where
  "get JUndefined k = Inl TypeError"
| "get JNull k = Inl TypeError"
| "get (JObj kvs) k = Inr (own_property kvs k)"
| "get (JBool b) k = Inr JUndefined"
| "get (JNum r) k = Inr JUndefined"
| "get (JStr s) k = Inr JUndefined"
| "get (JArr xs) k = Inr JUndefined"

text \<open>\<open>v.length\<close> and \<open>v[0]\<close>.\<close>

fun length_of :: "jsval \<Rightarrow> error + jsval" where
  "length_of JUndefined = Inl TypeError"
| "length_of JNull = Inl TypeError"
| "length_of (JArr xs) = Inr (JNum (of_nat (length xs)))"
| "length_of (JStr s) = Inr (JNum (of_nat (length s)))"
| "length_of (JObj kvs) = Inr (own_property kvs (js ''length''))"
| "length_of (JBool b) = Inr JUndefined"
| "length_of (JNum r) = Inr JUndefined"

fun index0 :: "jsval \<Rightarrow> error + jsval" where
  "index0 JUndefined = Inl TypeError"
| "index0 JNull = Inl TypeError"
| "index0 (JArr xs) = Inr (case xs of [] \<Rightarrow> JUndefined | x # _ \<Rightarrow> x)"
| "index0 (JStr s) = Inr (case s of [] \<Rightarrow> JUndefined | c # _ \<Rightarrow> JStr [c])"
| "index0 (JObj kvs) = Inr (own_property kvs (js ''0''))"
| "index0 (JBool b) = Inr JUndefined"
| "index0 (JNum r) = Inr JUndefined"

text \<open>\<open>v === 0\<close>.\<close>

fun equals_zero :: "jsval \<Rightarrow> bool" where
  "equals_zero (JNum r) = is_zero r"
| "equals_zero _ = False"

text \<open>Sequencing of steps that may throw: the first error ends the sequence.\<close>

definition and_then :: "error + 'a \<Rightarrow> ('a \<Rightarrow> error + 'b) \<Rightarrow> error + 'b" where
  "and_then m f = (case m of Inl e \<Rightarrow> Inl e | Inr x \<Rightarrow> f x)"

section \<open>JSON.parse\<close>

text \<open>
  The platform's \<open>JSON.parse\<close> on a string, after the JSON grammar of ECMA-404: a lexer
  into tokens, then a pushdown recogniser that builds the value. \<open>None\<close> is the
  \<open>SyntaxError\<close>.
\<close>

datatype token =
    TLBracket | TRBracket | TLBrace | TRBrace | TComma | TColon
  | TString jsstring | TNumber rat | TTrue | TFalse | TNull

definition is_ws :: "code_unit \<Rightarrow> bool" where
  "is_ws c \<longleftrightarrow> c = 0x20 \<or> c = 0x09 \<or> c = 0x0A \<or> c = 0x0D"

definition is_digit :: "code_unit \<Rightarrow> bool" where
  "is_digit c \<longleftrightarrow> 0x30 \<le> c \<and> c \<le> 0x39"

definition hex_val :: "code_unit \<Rightarrow> nat option" where
  "hex_val c =
     (if 0x30 \<le> c \<and> c \<le> 0x39 then Some (unat c - 0x30)
      else if 0x41 \<le> c \<and> c \<le> 0x46 then Some (unat c - 0x41 + 10)
      else if 0x61 \<le> c \<and> c \<le> 0x66 then Some (unat c - 0x61 + 10)
      else None)"

fun hex4 :: "jsstring \<Rightarrow> code_unit option" where
  "hex4 [a, b, c, d] =
     (case (hex_val a, hex_val b, hex_val c, hex_val d) of
        (Some h3, Some h2, Some h1, Some h0) \<Rightarrow>
          Some (of_nat (((h3 * 16 + h2) * 16 + h1) * 16 + h0))
      | _ \<Rightarrow> None)"
| "hex4 _ = None"

text \<open>
  The character after a backslash: a double quote, a backslash, a slash, or one of
  \<open>b f n r t\<close>.
\<close>

definition escape_char :: "code_unit \<Rightarrow> code_unit option" where
  "escape_char e =
     (if e = 0x22 then Some 0x22
      else if e = 0x5C then Some 0x5C
      else if e = 0x2F then Some 0x2F
      else if e = 0x62 then Some 0x08
      else if e = 0x66 then Some 0x0C
      else if e = 0x6E then Some 0x0A
      else if e = 0x72 then Some 0x0D
      else if e = 0x74 then Some 0x09
      else None)"

text \<open>
  A string, read from after its opening quote: the string's value and the text after the
  closing quote. A control character (below U+0020) is not allowed unescaped.
\<close>

fun lex_string :: "jsstring \<Rightarrow> (jsstring \<times> jsstring) option" where
  "lex_string [] = None"
| "lex_string (c # cs) =
     (if c = 0x22 then Some ([], cs)
      else if c < 0x20 then None
      else if c = 0x5C then
        (case cs of
           [] \<Rightarrow> None
         | e # rest \<Rightarrow>
             (if e = 0x75 then
                (case hex4 (take 4 rest) of
                   None \<Rightarrow> None
                 | Some u \<Rightarrow> map_option (\<lambda>(s, r). (u # s, r)) (lex_string (drop 4 rest)))
              else
                (case escape_char e of
                   None \<Rightarrow> None
                 | Some u \<Rightarrow> map_option (\<lambda>(s, r). (u # s, r)) (lex_string rest))))
      else map_option (\<lambda>(s, r). (c # s, r)) (lex_string cs))"

text \<open>
  A number: an optional minus, an integer part without leading zero, an optional
  fraction, an optional exponent.
\<close>

definition digits_val :: "jsstring \<Rightarrow> nat" where
  "digits_val ds = foldl (\<lambda>n d. 10 * n + (unat d - 0x30)) 0 ds"

definition lex_sign :: "jsstring \<Rightarrow> bool \<times> jsstring" where
  "lex_sign s =
     (case s of [] \<Rightarrow> (False, s) | c # r \<Rightarrow> if c = 0x2D then (True, r) else (False, s))"

definition lex_int :: "jsstring \<Rightarrow> (jsstring \<times> jsstring) option" where
  "lex_int s =
     (case s of
        [] \<Rightarrow> None
      | d # r \<Rightarrow>
          if d = 0x30 then Some ([d], r)
          else if is_digit d then Some (takeWhile is_digit s, dropWhile is_digit s)
          else None)"

definition lex_frac :: "jsstring \<Rightarrow> (jsstring \<times> jsstring) option" where
  "lex_frac s =
     (case s of
        [] \<Rightarrow> Some ([], s)
      | c # r \<Rightarrow>
          if c = 0x2E then
            (if takeWhile is_digit r = [] then None
             else Some (takeWhile is_digit r, dropWhile is_digit r))
          else Some ([], s))"

definition lex_exp :: "jsstring \<Rightarrow> (int \<times> jsstring) option" where
  "lex_exp s =
     (case s of
        [] \<Rightarrow> Some (0, s)
      | c # r \<Rightarrow>
          if c = 0x65 \<or> c = 0x45 then
            (let (neg, r') =
               (case r of
                  [] \<Rightarrow> (False, r)
                | g # t \<Rightarrow>
                    if g = 0x2D then (True, t) else if g = 0x2B then (False, t) else (False, r))
             in if takeWhile is_digit r' = [] then None
                else Some ((if neg then - 1 else 1) * int (digits_val (takeWhile is_digit r')),
                           dropWhile is_digit r'))
          else Some (0, s))"

definition decimal_value :: "bool \<Rightarrow> jsstring \<Rightarrow> jsstring \<Rightarrow> int \<Rightarrow> rat" where
  "decimal_value neg ip fp ex =
     (let m = of_nat (digits_val (ip @ fp)) :: rat;
          e = ex - int (length fp);
          v = (if 0 \<le> e then m * 10 ^ nat e else m / 10 ^ nat (- e))
      in if neg then - v else v)"

definition lex_number :: "jsstring \<Rightarrow> (rat \<times> jsstring) option" where
  "lex_number s =
     (let (neg, s1) = lex_sign s in
      case lex_int s1 of
        None \<Rightarrow> None
      | Some (ip, s2) \<Rightarrow>
          (case lex_frac s2 of
             None \<Rightarrow> None
           | Some (fp, s3) \<Rightarrow>
               (case lex_exp s3 of
                  None \<Rightarrow> None
                | Some (ex, s4) \<Rightarrow> Some (decimal_value neg ip fp ex, s4))))"

function tokens :: "jsstring \<Rightarrow> token list option" where
  "tokens [] = Some []"
| "tokens (c # cs) =
     (if is_ws c then tokens cs
      else if c = 0x5B then map_option (Cons TLBracket) (tokens cs)
      else if c = 0x5D then map_option (Cons TRBracket) (tokens cs)
      else if c = 0x7B then map_option (Cons TLBrace) (tokens cs)
      else if c = 0x7D then map_option (Cons TRBrace) (tokens cs)
      else if c = 0x2C then map_option (Cons TComma) (tokens cs)
      else if c = 0x3A then map_option (Cons TColon) (tokens cs)
      else if c = 0x22 then
        (case lex_string cs of
           None \<Rightarrow> None
         | Some (s, rest) \<Rightarrow> map_option (Cons (TString s)) (tokens rest))
      else if c = 0x2D \<or> is_digit c then
        (case lex_number (c # cs) of
           None \<Rightarrow> None
         | Some (n, rest) \<Rightarrow> map_option (Cons (TNumber n)) (tokens rest))
      else if take 4 (c # cs) = js ''true'' then map_option (Cons TTrue) (tokens (drop 3 cs))
      else if take 5 (c # cs) = js ''false'' then map_option (Cons TFalse) (tokens (drop 4 cs))
      else if take 4 (c # cs) = js ''null'' then map_option (Cons TNull) (tokens (drop 3 cs))
      else None)"
  by pat_completeness auto
text \<open>
  The recogniser's state: the containers that are open (innermost first) and what may
  come next. An object keeps each key once, with the value given last.
\<close>

datatype frame =
    FArr "jsval list" \<comment> \<open>the elements read so far\<close>
  | FObj "(jsstring \<times> jsval) list" jsstring \<comment> \<open>the members read so far, and the key awaiting its value\<close>

datatype pstate =
    Value "frame list" \<comment> \<open>a value must follow\<close>
  | ValueOrEnd "frame list" \<comment> \<open>after \<open>[\<close>: a value or \<open>]\<close>\<close>
  | AfterElem "jsval list" "frame list" \<comment> \<open>in an array, after an element: \<open>,\<close> or \<open>]\<close>\<close>
  | KeyOrEnd "frame list" \<comment> \<open>after \<open>{\<close>: a key or \<open>}\<close>\<close>
  | Key "(jsstring \<times> jsval) list" "frame list" \<comment> \<open>in an object, after \<open>,\<close>: a key\<close>
  | Colon "(jsstring \<times> jsval) list" jsstring "frame list" \<comment> \<open>after a key: \<open>:\<close>\<close>
  | AfterMember "(jsstring \<times> jsval) list" "frame list" \<comment> \<open>after a own_property: \<open>,\<close> or \<open>}\<close>\<close>
  | Done jsval \<comment> \<open>the text is complete\<close>

definition put :: "(jsstring \<times> jsval) list \<Rightarrow> jsstring \<Rightarrow> jsval \<Rightarrow> (jsstring \<times> jsval) list" where
  "put kvs k v =
     (if k \<in> fst ` set kvs then map (\<lambda>(k', v'). if k' = k then (k', v) else (k', v')) kvs
      else kvs @ [(k, v)])"

fun deliver :: "jsval \<Rightarrow> frame list \<Rightarrow> pstate" where
  "deliver v [] = Done v"
| "deliver v (FArr xs # st) = AfterElem (xs @ [v]) st"
| "deliver v (FObj kvs k # st) = AfterMember (put kvs k v) st"

fun scalar :: "token \<Rightarrow> jsval option" where
  "scalar (TString s) = Some (JStr s)"
| "scalar (TNumber r) = Some (JNum r)"
| "scalar TTrue = Some (JBool True)"
| "scalar TFalse = Some (JBool False)"
| "scalar TNull = Some JNull"
| "scalar _ = None"

definition start_value :: "frame list \<Rightarrow> token \<Rightarrow> pstate option" where
  "start_value st t =
     (if t = TLBracket then Some (ValueOrEnd st)
      else if t = TLBrace then Some (KeyOrEnd st)
      else map_option (\<lambda>v. deliver v st) (scalar t))"

fun step :: "pstate \<Rightarrow> token \<Rightarrow> pstate option" where
  "step (Value st) t = start_value st t"
| "step (ValueOrEnd st) t =
     (if t = TRBracket then Some (deliver (JArr []) st) else start_value (FArr [] # st) t)"
| "step (AfterElem xs st) t =
     (if t = TComma then Some (Value (FArr xs # st))
      else if t = TRBracket then Some (deliver (JArr xs) st)
      else None)"
| "step (KeyOrEnd st) t =
     (case t of
        TRBrace \<Rightarrow> Some (deliver (JObj []) st)
      | TString k \<Rightarrow> Some (Colon [] k st)
      | _ \<Rightarrow> None)"
| "step (Key kvs st) t = (case t of TString k \<Rightarrow> Some (Colon kvs k st) | _ \<Rightarrow> None)"
| "step (Colon kvs k st) t = (if t = TColon then Some (Value (FObj kvs k # st)) else None)"
| "step (AfterMember kvs st) t =
     (if t = TComma then Some (Key kvs st)
      else if t = TRBrace then Some (deliver (JObj kvs) st)
      else None)"
| "step (Done v) t = None"

fun run :: "pstate \<Rightarrow> token list \<Rightarrow> jsval option" where
  "run s [] = (case s of Done v \<Rightarrow> Some v | _ \<Rightarrow> None)"
| "run s (t # ts) = (case step s t of None \<Rightarrow> None | Some s' \<Rightarrow> run s' ts)"

definition JSON_parse :: "jsstring \<Rightarrow> jsval option" where
  "JSON_parse s = (case tokens s of None \<Rightarrow> None | Some ts \<Rightarrow> run (Value []) ts)"

section \<open>Question generation from a topic (lib/api/gemini)\<close>

text \<open>
  \<open>responseText.match(/\[[\s\S]*\]/)\<close>: the leftmost match of an opening bracket, any
  characters (as many as possible), and a closing bracket. \<open>greedy_to_bracket\<close> is the
  longest prefix that ends with a closing bracket.
\<close>

fun greedy_to_bracket :: "jsstring \<Rightarrow> jsstring option" where
  "greedy_to_bracket [] = None"
| "greedy_to_bracket (c # cs) =
     (case greedy_to_bracket cs of
        Some m \<Rightarrow> Some (c # m)
      | None \<Rightarrow> if c = 0x5D then Some [c] else None)"

fun match_here :: "jsstring \<Rightarrow> jsstring option" where
  "match_here [] = None"
| "match_here (c # cs) =
     (if c = 0x5B then map_option (Cons c) (greedy_to_bracket cs) else None)"

fun match_brackets :: "jsstring \<Rightarrow> jsstring option" where
  "match_brackets [] = None"
| "match_brackets (c # cs) =
     (case match_here (c # cs) of Some m \<Rightarrow> Some m | None \<Rightarrow> match_brackets cs)"

text \<open>The decimal digits of an integer, as a template literal prints a number.\<close>

fun decimal :: "nat \<Rightarrow> jsstring" where
  "decimal n =
     (if n < 10 then [of_nat (48 + n)] else decimal (n div 10) @ [of_nat (48 + n mod 10)])"

definition Number_toString :: "int \<Rightarrow> jsstring" where
  "Number_toString i = (if i < 0 then 0x2D # decimal (nat (- i)) else decimal (nat i))"

definition prompt :: "jsstring \<Rightarrow> int \<Rightarrow> jsstring" where
  \<open>prompt text_arg count =
     js ''Generate '' @ Number_toString count
       @ js '' multiple choice questions from the following topic. '' @ [0x0A]
     @ js ''      Format each question as a JSON object with properties:'' @ [0x0A]
     @ js ''      - text: the question text'' @ [0x0A]
     @ js ''      - options: array of 4 possible answers'' @ [0x0A]
     @ js ''      - correct_answer: index of correct answer (0-3)'' @ [0x0A]
     @ js ''      - difficulty: "easy", "medium", or "hard"'' @ [0x0A]
     @ js ''      '' @ [0x0A]
     @ js ''      Topic: '' @ text_arg @ [0x0A]
     @ js ''      '' @ [0x0A]
     @ js ''      Return ONLY a JSON array of questions with no additional text.'' @ [0x0A]
     @ js ''      Example format:'' @ [0x0A]
     @ js ''      ['' @ [0x0A]
     @ js ''        {'' @ [0x0A]
     @ js ''          "text": "What is the capital of France?",'' @ [0x0A]
     @ js ''          "options": ["London", "Paris", "Berlin", "Madrid"],'' @ [0x0A]
     @ js ''          "correct_answer": 1,'' @ [0x0A]
     @ js ''          "difficulty": "easy"'' @ [0x0A]
     @ js ''        }'' @ [0x0A]
     @ js ''      ]''\<close>

text \<open>
  The inner \<open>try\<close> of \<open>generateQuestionsFromText\<close>: the direct parse, then the parse of
  the bracketed part of the text.
\<close>

definition parseResponseText :: "jsstring \<Rightarrow> error + jsval" where
  "parseResponseText responseText =
     (case JSON_parse responseText of
        Some v \<Rightarrow> Inr v
      | None \<Rightarrow>
          (case match_brackets responseText of
             Some jsonMatch \<Rightarrow>
               (case JSON_parse jsonMatch of Some v \<Rightarrow> Inr v | None \<Rightarrow> Inl SyntaxError)
           | None \<Rightarrow> Inl (Error (js ''Failed to parse generated questions''))))"

text \<open>
  The completion service is outside the repository: \<open>generateContent\<close> gives, for a
  prompt, the response text or the failure of the call. \<open>count\<close> is \<open>None\<close> when the
  argument is left out (the default is 5). The outer \<open>catch\<close> replaces every error.
\<close>

definition generateQuestionsFromText ::
  "(jsstring \<Rightarrow> error + jsstring) \<Rightarrow> jsstring \<Rightarrow> int option \<Rightarrow> error + jsval" where
  "generateQuestionsFromText generateContent text_arg count =
     (case and_then (generateContent (prompt text_arg (case count of None \<Rightarrow> 5 | Some n \<Rightarrow> n)))
             parseResponseText of
        Inr questions \<Rightarrow> Inr questions
      | Inl e \<Rightarrow> Inl (Error (js ''Failed to generate questions'')))"

definition generateQuestionsFromDocument ::
  "(jsstring \<Rightarrow> error + jsstring) \<Rightarrow> jsstring \<Rightarrow> int option \<Rightarrow> error + jsval" where
  "generateQuestionsFromDocument generateContent documentText count =
     generateQuestionsFromText generateContent documentText
       (Some (case count of None \<Rightarrow> 5 | Some n \<Rightarrow> n))"

section \<open>Saving generated questions (TopicGenerator, DocumentUploader)\<close>

text \<open>The argument of one \<open>addQuestion\<close> call.\<close>

record new_question =
  nq_text :: jsval
  nq_options :: jsval
  nq_correct_answer :: jsval
  nq_difficulty :: jsval
  nq_subject_id :: jsstring
  nq_teacher_id :: jsstring
  nq_marks :: int

datatype toast = ToastError jsstring | ToastSuccess jsstring

text \<open>
  What a handler has done when it returns: the \<open>addQuestion\<close> calls it issued, in order;
  the notifications; the error its \<open>catch\<close> received, if any; whether it called
  \<open>onQuestionsGenerated\<close>; and the value it gave to \<open>setGeneratedQuestions\<close>.
\<close>

record outcome =
  issued :: "new_question list"
  toasts :: "toast list"
  raised :: "error option"
  refreshed :: bool
  displayed :: "jsval option"

text \<open>
  \<open>questions.map(q => addQuestion({...}))\<close>: the questions in order; building an argument
  may throw, which ends the loop after the calls already made.
\<close>

fun collect :: "('a \<Rightarrow> error + 'b) \<Rightarrow> 'a list \<Rightarrow> 'b list \<times> error option" where
  "collect f [] = ([], None)"
| "collect f (x # xs) =
     (case f x of
        Inl e \<Rightarrow> ([], Some e)
      | Inr y \<Rightarrow> (case collect f xs of (ys, r) \<Rightarrow> (y # ys, r)))"

text \<open>
  \<open>await Promise.all(...)\<close>: \<open>addQuestion\<close> is the store's asynchronous insertion, outside
  the repository; it gives the rejection of a call, or \<open>None\<close>. Of several rejections the
  model reports the one of the earliest call.
\<close>

definition save_all ::
  "(jsval \<Rightarrow> error + new_question) \<Rightarrow> (new_question \<Rightarrow> error option) \<Rightarrow> jsval list
     \<Rightarrow> new_question list \<times> error option" where
  "save_all build addQuestion qs =
     (case collect build qs of
        (reqs, Some e) \<Rightarrow> (reqs, Some e)
      | (reqs, None) \<Rightarrow>
          (reqs, case List.find (\<lambda>r. addQuestion r \<noteq> None) reqs of
                   None \<Rightarrow> None
                 | Some r \<Rightarrow> addQuestion r))"

definition finish :: "jsstring \<Rightarrow> jsstring \<Rightarrow> jsval option
     \<Rightarrow> new_question list \<times> error option \<Rightarrow> outcome" where
  "finish success_text failure_text shown res =
     (case res of
        (reqs, None) \<Rightarrow>
          \<lparr>issued = reqs, toasts = [ToastSuccess success_text], raised = None,
           refreshed = True, displayed = shown\<rparr>
      | (reqs, Some e) \<Rightarrow>
          \<lparr>issued = reqs, toasts = [ToastError failure_text], raised = Some e,
           refreshed = False, displayed = shown\<rparr>)"

subsection \<open>TopicGenerator\<close>

text \<open>\<open>String.prototype.trim\<close> removes white space and line terminators at both ends.\<close>

definition is_js_space :: "code_unit \<Rightarrow> bool" where
  "is_js_space c \<longleftrightarrow>
     c \<in> {0x09, 0x0A, 0x0B, 0x0C, 0x0D, 0x20, 0xA0, 0x1680, 0x2028, 0x2029, 0x202F,
          0x205F, 0x3000, 0xFEFF} \<or> (0x2000 \<le> c \<and> c \<le> 0x200A)"

definition trim :: "jsstring \<Rightarrow> jsstring" where
  "trim s = rev (dropWhile is_js_space (rev (dropWhile is_js_space s)))"

text \<open>The argument built for one question (lines 35 to 43); \<open>user\<close> is the signed-in user's id.\<close>

definition topic_insertion :: "jsstring \<Rightarrow> jsstring option \<Rightarrow> jsval \<Rightarrow> error + new_question" where
  "topic_insertion subjectId user question =
     and_then (get question (js ''text'')) (\<lambda>t.
     and_then (get question (js ''options'')) (\<lambda>opts.
     and_then (get question (js ''correct_answer'')) (\<lambda>ca.
     and_then (get question (js ''difficulty'')) (\<lambda>d.
       case user of
         None \<Rightarrow> Inl TypeError
       | Some uid \<Rightarrow>
           Inr \<lparr>nq_text = t, nq_options = opts, nq_correct_answer = ca, nq_difficulty = d,
                nq_subject_id = subjectId, nq_teacher_id = uid, nq_marks = 1\<rparr>))))"

definition handleGenerate ::
  "(jsstring \<Rightarrow> error + jsstring) \<Rightarrow> (new_question \<Rightarrow> error option)
     \<Rightarrow> jsstring \<Rightarrow> jsstring option \<Rightarrow> jsstring \<Rightarrow> int \<Rightarrow> outcome" where
  "handleGenerate generateContent addQuestion subjectId user topic count =
     (if trim topic = [] then
        \<lparr>issued = [], toasts = [ToastError (js ''Please enter a topic'')], raised = None,
         refreshed = False, displayed = None\<rparr>
      else
        (case generateQuestionsFromText generateContent topic (Some count) of
           Inl e \<Rightarrow>
             finish (js ''Questions generated successfully!'') (js ''Failed to generate questions'')
               None ([], Some e)
         | Inr questions \<Rightarrow>
             finish (js ''Questions generated successfully!'') (js ''Failed to generate questions'')
               (Some questions)
               (case questions of
                  JArr qs \<Rightarrow> save_all (topic_insertion subjectId user) addQuestion qs
                | _ \<Rightarrow> ([], Some TypeError))))"

subsection \<open>DocumentUploader\<close>

text \<open>
  A response of the completion service, received in full. \<open>response.ok\<close> is the status
  being in the range 200 to 299.
\<close>

record http_response =
  status :: nat
  body :: jsstring

definition ok :: "http_response \<Rightarrow> bool" where
  "ok response \<longleftrightarrow> 200 \<le> status response \<and> status response \<le> 299"

text \<open>Lines 131 to 138: the text of the first part of the first candidate.\<close>

definition generatedContent :: "jsval \<Rightarrow> error + jsval" where
  "generatedContent data =
     and_then (get data (js ''candidates'')) (\<lambda>candidates.
       if \<not> truthy candidates
          \<or> (case length_of candidates of Inr n \<Rightarrow> equals_zero n | Inl e \<Rightarrow> False)
       then Inl (Error (js ''No candidates found in API response''))
       else
         and_then (index0 candidates) (\<lambda>candidate.
         and_then (get candidate (js ''content'')) (\<lambda>content.
         and_then (get content (js ''parts'')) (\<lambda>parts.
         and_then (index0 parts) (\<lambda>part.
         and_then (get part (js ''text'')) (\<lambda>t.
           if \<not> truthy t then Inl (Error (js ''Generated content is empty or malformed''))
           else Inr t))))))"

text \<open>
  Lines 140 to 150. \<open>JSON.parse\<close> turns an argument that is not a string into one first;
  that conversion is the platform's, \<open>ToString\<close> here (\<open>None\<close> when it throws).
\<close>

definition parseQuestions :: "(jsval \<Rightarrow> jsstring option) \<Rightarrow> jsval \<Rightarrow> error + jsval list" where
  "parseQuestions ToString content =
     (case (case content of JStr s \<Rightarrow> JSON_parse s
                          | _ \<Rightarrow> Option.bind (ToString content) JSON_parse) of
        None \<Rightarrow> Inl (Error (js ''Failed to parse generated content as JSON''))
      | Some questions \<Rightarrow>
          (case questions of
             JArr qs \<Rightarrow>
               if qs = [] then Inl (Error (js ''Generated content is not a valid array of questions''))
               else Inr qs
           | _ \<Rightarrow> Inl (Error (js ''Generated content is not a valid array of questions''))))"

text \<open>
  Lines 88 to 150: from the API key to the validated questions. \<open>apiKey\<close> is the
  environment's value (\<open>None\<close> when it is not set); \<open>fetched\<close> is what the one request
  ends with, a response or the failure of the call.
\<close>

definition requestQuestions ::
  "(jsval \<Rightarrow> jsstring option) \<Rightarrow> jsstring option \<Rightarrow> error + http_response
     \<Rightarrow> error + jsval list" where
  "requestQuestions ToString apiKey fetched =
     (if apiKey = None \<or> apiKey = Some [] then
        Inl (Error (js (''Gemini API key is missing. ''
                        @ ''Ensure VITE_GEMINI_API_KEY is set in your environment.'')))
      else
        and_then fetched (\<lambda>response.
          if \<not> ok response then
            Inl (Error (js ''API request failed with status ''
                        @ Number_toString (int (status response)) @ js '': '' @ body response))
          else
            (case JSON_parse (body response) of
               None \<Rightarrow> Inl SyntaxError
             | Some data \<Rightarrow> and_then (generatedContent data) (parseQuestions ToString))))"

text \<open>
  \<open>String.fromCharCode(n)\<close> is the one code unit \<open>n\<close> modulo \<open>2\<^sup>1\<^sup>6\<close>;
  \<open>xs.findIndex(p)\<close> is the first index whose element satisfies \<open>p\<close>, or \<open>-1\<close>.
\<close>

definition fromCharCode :: "nat \<Rightarrow> jsstring" where
  "fromCharCode n = [of_nat n]"

definition findIndex :: "('a \<Rightarrow> nat \<Rightarrow> bool) \<Rightarrow> 'a list \<Rightarrow> int" where
  "findIndex p xs =
     (case List.find (\<lambda>idx. p (xs ! idx) idx) [0..<length xs] of
        None \<Rightarrow> - 1
      | Some idx \<Rightarrow> int idx)"

text \<open>
  Lines 157 to 159: the index of the first option whose letter (\<open>A\<close> for index 0, and so
  on) is \<open>correct_answer\<close>. The callback does not read the option itself.
\<close>

definition answer_index :: "jsval list \<Rightarrow> jsval \<Rightarrow> int" where
  "answer_index os ca = findIndex (\<lambda>opt idx. JStr (fromCharCode (65 + idx)) = ca) os"

text \<open>
  The argument built for one question (lines 154 to 164). \<open>q.options.findIndex\<close> throws
  unless \<open>q.options\<close> is an array.
\<close>

definition mcq_insertion :: "jsstring \<Rightarrow> jsstring option \<Rightarrow> jsval \<Rightarrow> error + new_question" where
  "mcq_insertion subjectId user q =
     and_then (get q (js ''text'')) (\<lambda>t.
     and_then (get q (js ''options'')) (\<lambda>opts.
       case opts of
         JArr os \<Rightarrow>
           and_then (get q (js ''correct_answer'')) (\<lambda>ca.
           and_then (get q (js ''difficulty'')) (\<lambda>d.
             case user of
               None \<Rightarrow> Inl TypeError
             | Some uid \<Rightarrow>
                 Inr \<lparr>nq_text = t, nq_options = opts,
                      nq_correct_answer = JNum (of_int (answer_index os ca)),
                      nq_difficulty = (if truthy d then d else JStr (js ''medium'')),
                      nq_subject_id = subjectId, nq_teacher_id = uid, nq_marks = 1\<rparr>))
       | _ \<Rightarrow> Inl TypeError))"

definition handleGenerateMCQs ::
  "(jsval \<Rightarrow> jsstring option) \<Rightarrow> error + http_response \<Rightarrow> (new_question \<Rightarrow> error option)
     \<Rightarrow> jsstring option \<Rightarrow> jsstring \<Rightarrow> jsstring option \<Rightarrow> jsstring \<Rightarrow> outcome" where
  "handleGenerateMCQs ToString fetched addQuestion apiKey subjectId user extractedText =
     (if extractedText = [] then
        \<lparr>issued = [], toasts = [ToastError (js ''No text extracted to generate questions'')],
         raised = None, refreshed = False, displayed = None\<rparr>
      else
        finish (js ''MCQs generated and saved successfully!'') (js ''Failed to generate MCQs'') None
          (case requestQuestions ToString apiKey fetched of
             Inl e \<Rightarrow> ([], Some e)
           | Inr qs \<Rightarrow> save_all (mcq_insertion subjectId user) addQuestion qs))"

section \<open>The selection view (QuestionSelection)\<close>

text \<open>A question of the pool; the view reads its \<open>id\<close>.\<close>

record question =
  q_id :: jsstring
  q_text :: jsstring
  q_options :: "jsstring list"
  q_correct_answer :: int
  q_difficulty :: jsstring
  q_marks :: int

text \<open>The effect of lines 24 to 33: the questions whose id is not the id of a selected one.\<close>

definition availableQuestions :: "question list \<Rightarrow> question list \<Rightarrow> question list" where
  "availableQuestions questions selectedQuestions =
     (let selectedIds = set (map q_id selectedQuestions)
      in filter (\<lambda>q. q_id q \<notin> selectedIds) questions)"

section \<open>Example inputs\<close>

text \<open>
  Collaborators for the examples: a completion service that answers every prompt with
  the text \<open>t\<close>, a store that accepts every insertion, and a string conversion that is
  never needed (the content in the examples is a string).
\<close>

definition answering :: "jsstring \<Rightarrow> jsstring \<Rightarrow> error + jsstring" where
  [simp]: "answering t p = Inr t"

definition accepting :: "new_question \<Rightarrow> error option" where
  [simp]: "accepting r = None"

definition no_conversion :: "jsval \<Rightarrow> jsstring option" where
  [simp]: "no_conversion v = None"

text \<open>
  A text as a JSON string literal (quotes and backslashes escaped), to write a response
  body whose \<open>text\<close> part holds JSON itself.
\<close>

definition json_string :: "jsstring \<Rightarrow> jsstring" where
  "json_string s =
     [0x22] @ concat (map (\<lambda>c. if c = 0x22 \<or> c = 0x5C then [0x5C, c] else [c]) s) @ [0x22]"

definition example_content :: jsstring where
  \<open>example_content =
     js (''[{"text":"Q1","options":["x","y","z","w"],"correct_answer":"E","difficulty":""},''
       @ '' {"text":"Q2","options":["x","y","z","w"],"correct_answer":"C","difficulty":"hard"}]'')\<close>

definition example_body :: jsstring where
  \<open>example_body =
     js ''{"candidates":[{"content":{"parts":[{"text":'' @ json_string example_content
       @ js ''}]}}]}''\<close>

text \<open>The two questions that \<open>example_content\<close> spells out.\<close>

definition example_mcqs :: "jsval list" where
  "example_mcqs =
     [JObj [(js ''text'', JStr (js ''Q1'')),
            (js ''options'', JArr [JStr (js ''x''), JStr (js ''y''), JStr (js ''z''), JStr (js ''w'')]),
            (js ''correct_answer'', JStr (js ''E'')), (js ''difficulty'', JStr [])],
      JObj [(js ''text'', JStr (js ''Q2'')),
            (js ''options'', JArr [JStr (js ''x''), JStr (js ''y''), JStr (js ''z''), JStr (js ''w'')]),
            (js ''correct_answer'', JStr (js ''C'')), (js ''difficulty'', JStr (js ''hard''))]]"

text \<open>Responses of the completion service to the topic path.\<close>

definition example_response :: jsstring where
  \<open>example_response =
     js (''[{"text":"Q1","options":["a","b","c","d"],"correct_answer":0,"difficulty":"easy"},''
       @ '' {"text":"Q2","options":["a","b","c","d"],"correct_answer":1,"difficulty":"medium"},''
       @ '' {"text":"Q3","options":["a","b","c","d"],"correct_answer":2,"difficulty":"hard"}]'')\<close>

definition example_objects :: "jsval list" where
  "example_objects =
       [JObj [(js ''text'', JStr (js ''Q1'')),
              (js ''options'', JArr [JStr (js ''a''), JStr (js ''b''), JStr (js ''c''), JStr (js ''d'')]),
              (js ''correct_answer'', JNum 0), (js ''difficulty'', JStr (js ''easy''))],
        JObj [(js ''text'', JStr (js ''Q2'')),
              (js ''options'', JArr [JStr (js ''a''), JStr (js ''b''), JStr (js ''c''), JStr (js ''d'')]),
              (js ''correct_answer'', JNum 1), (js ''difficulty'', JStr (js ''medium''))],
        JObj [(js ''text'', JStr (js ''Q3'')),
              (js ''options'', JArr [JStr (js ''a''), JStr (js ''b''), JStr (js ''c''), JStr (js ''d'')]),
              (js ''correct_answer'', JNum 2), (js ''difficulty'', JStr (js ''hard''))]]"

definition out_of_range_response :: jsstring where
  \<open>out_of_range_response =
     js ''[{"text":"Q1","options":["a","b","c","d"],"correct_answer":7,"difficulty":"easy"}]''\<close>

definition prose_response :: jsstring where
  \<open>prose_response = js ''Here are your questions:'' @ [0x0A] @ js ''[{"text":"Q1"}]''\<close>

definition bracket_prose_response :: jsstring where
  \<open>bracket_prose_response = js ''Here are your questions [easy]: [{"text":"Q1"}]''\<close>

definition wrapped_response :: jsstring where
  \<open>wrapped_response = js ''{"questions":[{"text":"Q1"}]}''\<close>

text \<open>A pool of three questions.\<close>

definition example_pool :: "question list" where
  "example_pool =
     [\<lparr>q_id = js ''q1'', q_text = js ''One'', q_options = [], q_correct_answer = 0,
       q_difficulty = js ''easy'', q_marks = 1\<rparr>,
      \<lparr>q_id = js ''q2'', q_text = js ''Two'', q_options = [], q_correct_answer = 1,
       q_difficulty = js ''hard'', q_marks = 1\<rparr>,
      \<lparr>q_id = js ''q3'', q_text = js ''Three'', q_options = [], q_correct_answer = 2,
       q_difficulty = js ''easy'', q_marks = 1\<rparr>]"

section \<open>Properties\<close>

subsection \<open>Termination of the lexer\<close>

text \<open>Every token takes at least one character, so \<open>tokens\<close> ends on every text.\<close>

lemma lex_string_shorter: "lex_string s = Some (v, r) \<Longrightarrow> length r < length s"
proof (induction s arbitrary: v r rule: lex_string.induct)
  case 1
  then show ?case by simp
next
  case (2 c cs)
  show ?case
  proof (cases "c = 0x22")
    case True
    with "2.prems" show ?thesis by simp
  next
    case nq: False
    show ?thesis
    proof (cases "c = 0x5C")
      case False
      with nq "2.prems" obtain v' where "lex_string cs = Some (v', r)"
        by (auto split: if_splits)
      with "2.IH"(3) nq False "2.prems" show ?thesis
        by (fastforce split: if_splits)
    next
      case bs: True
      with nq "2.prems" obtain e rest where cs: "cs = e # rest"
        by (cases cs) (auto split: if_splits)
      show ?thesis
      proof (cases "e = 0x75")
        case True
        with nq bs cs "2.prems" obtain u v' where
          "hex4 (take 4 rest) = Some u" "lex_string (drop 4 rest) = Some (v', r)"
          by (auto split: if_splits option.splits)
        with "2.IH"(1) [OF nq _ bs cs True] nq bs cs "2.prems"
        have "length r < length (drop 4 rest)"
          by (fastforce split: if_splits)
        with cs show ?thesis by simp
      next
        case False
        with nq bs cs "2.prems" obtain u v' where
          "escape_char e = Some u" "lex_string rest = Some (v', r)"
          by (auto split: if_splits option.splits)
        with "2.IH"(2) [OF nq _ bs cs False] nq bs cs "2.prems"
        have "length r < length rest"
          by (fastforce split: if_splits)
        with cs show ?thesis by simp
      qed
    qed
  qed
qed

lemma lex_sign_length: "lex_sign s = (neg, r) \<Longrightarrow> length r \<le> length s"
  by (auto simp: lex_sign_def split: list.splits if_splits)

lemma lex_int_shorter: "lex_int s = Some (ds, r) \<Longrightarrow> length r < length s"
  by (auto simp: lex_int_def length_dropWhile_le less_Suc_eq_le split: list.splits if_splits)

lemma lex_frac_length: "lex_frac s = Some (ds, r) \<Longrightarrow> length r \<le> length s"
  by (auto simp: lex_frac_def length_dropWhile_le le_SucI split: list.splits if_splits)

lemma lex_exp_length: "lex_exp s = Some (e, r) \<Longrightarrow> length r \<le> length s"
  by (auto simp: lex_exp_def Let_def le_SucI
      intro: order_trans [OF length_dropWhile_le]
      split: list.splits if_splits prod.splits)

lemma lex_number_shorter: "lex_number s = Some (v, r) \<Longrightarrow> length r < length s"
  by (fastforce simp: lex_number_def
      dest: lex_sign_length lex_int_shorter lex_frac_length lex_exp_length
      split: prod.splits option.splits)

termination tokens
  by (relation "measure length")
     (auto dest: lex_string_shorter lex_number_shorter)

subsection \<open>Auxiliary facts\<close>

lemma findIndex_none:
  "(\<And>idx. idx < length xs \<Longrightarrow> \<not> p (xs ! idx) idx) \<Longrightarrow> findIndex p xs = - 1"
  by (auto simp: findIndex_def find_None_iff split: option.splits)

lemma findIndex_first:
  assumes "i < length xs" and "p (xs ! i) i" and "\<And>j. j < i \<Longrightarrow> \<not> p (xs ! j) j"
  shows "findIndex p xs = int i"
proof -
  have "List.find (\<lambda>idx. p (xs ! idx) idx) [0..<length xs] = Some i"
    unfolding find_Some_iff
    using assms by (intro exI [of _ i]) auto
  then show ?thesis by (simp add: findIndex_def)
qed

lemma fromCharCode_inj:
  "a < 65536 \<Longrightarrow> b < 65536 \<Longrightarrow> fromCharCode a = fromCharCode b \<longleftrightarrow> a = b"
  by (simp add: fromCharCode_def word_of_nat_eq_iff take_bit_nat_eq_self)

lemma js_letters:
  "js ''A'' = fromCharCode 65" "js ''B'' = fromCharCode 66"
  "js ''C'' = fromCharCode 67" "js ''D'' = fromCharCode 68"
  by (simp_all add: js_def fromCharCode_def)

lemma answer_index_position:
  assumes "i < length os" and "i < 65471"
  shows "answer_index os (JStr (fromCharCode (65 + i))) = int i"
  unfolding answer_index_def
proof (rule findIndex_first)
  show "i < length os" by fact
  show "JStr (fromCharCode (65 + i)) = JStr (fromCharCode (65 + i))" by simp
  fix j assume "j < i"
  with assms(2) show "JStr (fromCharCode (65 + j)) \<noteq> JStr (fromCharCode (65 + i))"
    by (simp add: fromCharCode_inj)
qed

lemma collect_Inr: "map f xs = map Inr ys \<Longrightarrow> collect f xs = (ys, None)"
  by (induction xs arbitrary: ys) auto

lemma collect_nth:
  "i < length xs \<Longrightarrow> (\<And>j. j < i \<Longrightarrow> \<exists>y. f (xs ! j) = Inr y) \<Longrightarrow> f (xs ! i) = Inr y
     \<Longrightarrow> i < length (fst (collect f xs)) \<and> fst (collect f xs) ! i = y"
proof (induction xs arbitrary: i)
  case Nil
  then show ?case by simp
next
  case (Cons x xs)
  show ?case
  proof (cases i)
    case 0
    with Cons.prems show ?thesis by (cases "collect f xs") simp
  next
    case (Suc k)
    with Cons.prems(2) [of 0] obtain y0 where y0: "f x = Inr y0" by auto
    have "k < length (fst (collect f xs)) \<and> fst (collect f xs) ! k = y"
    proof (rule Cons.IH)
      show "k < length xs" using Cons.prems(1) Suc by simp
      show "\<exists>y. f (xs ! j) = Inr y" if "j < k" for j
        using Cons.prems(2) [of "Suc j"] that Suc by simp
      show "f (xs ! k) = Inr y" using Cons.prems(3) Suc by simp
    qed
    with y0 Suc show ?thesis by (cases "collect f xs") simp
  qed
qed

lemma fst_save_all: "fst (save_all build addQuestion qs) = fst (collect build qs)"
  by (simp add: save_all_def split: prod.splits option.splits)

lemma issued_finish: "issued (finish a b shown res) = fst res"
  by (cases res; cases "snd res") (auto simp: finish_def)

lemma raised_finish: "raised (finish a b shown res) = snd res"
  by (cases res; cases "snd res") (auto simp: finish_def)

lemma issued_handleGenerateMCQs:
  assumes "extractedText \<noteq> []" and "requestQuestions ToString apiKey fetched = Inr qs"
  shows "issued (handleGenerateMCQs ToString fetched addQuestion apiKey subjectId user extractedText)
         = fst (collect (mcq_insertion subjectId user) qs)"
  using assms by (simp add: handleGenerateMCQs_def issued_finish fst_save_all)

lemma issued_handleGenerate:
  assumes "trim topic \<noteq> []"
    and "generateQuestionsFromText generateContent topic (Some count) = Inr (JArr qs)"
  shows "issued (handleGenerate generateContent addQuestion subjectId user topic count)
         = fst (collect (topic_insertion subjectId user) qs)"
  using assms by (simp add: handleGenerate_def issued_finish fst_save_all)

lemma mcq_insertion_object:
  assumes "own_property kvs (js ''options'') = JArr os"
  shows "mcq_insertion subjectId (Some uid) (JObj kvs) =
         Inr \<lparr>nq_text = own_property kvs (js ''text''), nq_options = JArr os,
              nq_correct_answer = JNum (of_int (answer_index os (own_property kvs (js ''correct_answer'')))),
              nq_difficulty = (if truthy (own_property kvs (js ''difficulty''))
                               then own_property kvs (js ''difficulty'') else JStr (js ''medium'')),
              nq_subject_id = subjectId, nq_teacher_id = uid, nq_marks = 1\<rparr>"
  using assms by (simp add: mcq_insertion_def and_then_def)

lemma topic_insertion_object:
  "topic_insertion subjectId (Some uid) (JObj kvs) =
         Inr \<lparr>nq_text = own_property kvs (js ''text''), nq_options = own_property kvs (js ''options''),
              nq_correct_answer = own_property kvs (js ''correct_answer''),
              nq_difficulty = own_property kvs (js ''difficulty''),
              nq_subject_id = subjectId, nq_teacher_id = uid, nq_marks = 1\<rparr>"
  by (simp add: topic_insertion_def and_then_def)

lemma js_neq_simps:
  "js ''options'' \<noteq> js ''text''" "js ''correct_answer'' \<noteq> js ''text''"
  "js ''correct_answer'' \<noteq> js ''options''" "js ''difficulty'' \<noteq> js ''text''"
  "js ''difficulty'' \<noteq> js ''options''" "js ''difficulty'' \<noteq> js ''correct_answer''"
  by (simp_all add: js_def)

text \<open>The example body goes through lines 88 to 150 and gives two questions.\<close>

lemma example_questions:
  "requestQuestions no_conversion (Some (js ''key'')) (Inr \<lparr>status = 200, body = example_body\<rparr>)
   = Inr example_mcqs"
  by code_simp

lemma collect_total:
  "(\<And>x. x \<in> set xs \<Longrightarrow> \<exists>y. f x = Inr y) \<Longrightarrow> collect f xs = (map (\<lambda>x. projr (f x)) xs, None)"
proof (induction xs)
  case Nil
  show ?case by simp
next
  case (Cons a xs)
  from Cons.prems [of a] obtain y where "f a = Inr y" by auto
  moreover have "collect f xs = (map (\<lambda>x. projr (f x)) xs, None)"
    using Cons.prems by (intro Cons.IH) simp
  ultimately show ?case by simp
qed

lemma parse_example_response:
  "JSON_parse example_response =
     Some (JArr example_objects)"
  by code_simp

lemma parse_out_of_range_response:
  "JSON_parse out_of_range_response =
     Some (JArr
       [JObj [(js ''text'', JStr (js ''Q1'')),
              (js ''options'', JArr [JStr (js ''a''), JStr (js ''b''), JStr (js ''c''), JStr (js ''d'')]),
              (js ''correct_answer'', JNum 7), (js ''difficulty'', JStr (js ''easy''))]])"
  by code_simp

lemma generateQuestionsFromText_parsed:
  "generateContent (prompt topic (case count of None \<Rightarrow> 5 | Some n \<Rightarrow> n)) = Inr t
     \<Longrightarrow> JSON_parse t = Some v
     \<Longrightarrow> generateQuestionsFromText generateContent topic count = Inr v"
  by (simp add: generateQuestionsFromText_def and_then_def parseResponseText_def)

lemma trim_Photosynthesis: "trim (js ''Photosynthesis'') \<noteq> []"
  by (simp add: trim_def js_def is_js_space_def)

lemma example_generated:
  "generateQuestionsFromText (answering example_response) (js ''Photosynthesis'') (Some 3)
     = Inr (JArr example_objects)"
  by (rule generateQuestionsFromText_parsed [OF _ parse_example_response]) simp

lemma text_arg_nonempty: "js ''Plants make sugar.'' \<noteq> []"
  by (simp add: js_def)

lemma map_Inr_eq: "map Inr xs = map Inr ys \<Longrightarrow> xs = ys"
  by (simp add: inj_map_eq_map)

lemma greedy_to_bracket_None: "0x5D \<notin> set s \<Longrightarrow> greedy_to_bracket s = None"
  by (induction s) auto

lemma greedy_to_bracket_last:
  "0x5D \<notin> set post \<Longrightarrow> greedy_to_bracket (mid @ 0x5D # post) = Some (mid @ [0x5D])"
  by (induction mid) (simp_all add: greedy_to_bracket_None)

lemma match_brackets_span:
  "0x5B \<notin> set pre \<Longrightarrow> 0x5D \<notin> set post
     \<Longrightarrow> match_brackets (pre @ 0x5B # mid @ 0x5D # post) = Some (0x5B # mid @ [0x5D])"
  by (induction pre) (simp_all add: greedy_to_bracket_last)

lemma greedy_to_bracket_Some:
  "greedy_to_bracket s = Some m
     \<Longrightarrow> \<exists>mid post. s = mid @ 0x5D # post \<and> m = mid @ [0x5D] \<and> 0x5D \<notin> set post"
proof (induction s arbitrary: m)
  case Nil
  then show ?case by simp
next
  case (Cons c s)
  show ?case
  proof (cases "greedy_to_bracket s")
    case None
    with Cons.prems have c: "c = 0x5D" "m = [c]"
      by (auto split: if_splits)
    have "0x5D \<notin> set s"
    proof
      assume "0x5D \<in> set s"
      then obtain a b where "s = a @ 0x5D # b" "0x5D \<notin> set b"
        by (metis split_list_last)
      with greedy_to_bracket_last [of b a] None show False by simp
    qed
    with c show ?thesis by (intro exI [of _ "[]"] exI [of _ s]) simp
  next
    case (Some m')
    with Cons.prems have m: "m = c # m'" by simp
    from Cons.IH [OF Some] obtain mid post where
      "s = mid @ 0x5D # post" "m' = mid @ [0x5D]" "0x5D \<notin> set post" by blast
    with m show ?thesis by (intro exI [of _ "c # mid"] exI [of _ post]) simp
  qed
qed

lemma match_brackets_Some:
  "match_brackets t = Some m
     \<Longrightarrow> \<exists>pre mid post. t = pre @ 0x5B # mid @ 0x5D # post \<and> m = 0x5B # mid @ [0x5D]
           \<and> 0x5B \<notin> set pre \<and> 0x5D \<notin> set post"
proof (induction t)
  case Nil
  then show ?case by simp
next
  case (Cons c t)
  show ?case
  proof (cases "match_here (c # t)")
    case (Some m')
    with Cons.prems have m: "m' = m" by simp
    from Some obtain g where c: "c = 0x5B" and g: "greedy_to_bracket t = Some g" and m': "m' = c # g"
      by (auto split: if_splits)
    from greedy_to_bracket_Some [OF g] obtain mid post where
      "t = mid @ 0x5D # post" "g = mid @ [0x5D]" "0x5D \<notin> set post" by blast
    with c m m' show ?thesis by (intro exI [of _ "[]"] exI [of _ mid] exI [of _ post]) simp
  next
    case None
    with Cons.prems have "match_brackets t = Some m" by simp
    from Cons.IH [OF this] obtain pre mid post where
      t: "t = pre @ 0x5B # mid @ 0x5D # post" "m = 0x5B # mid @ [0x5D]"
      "0x5B \<notin> set pre" "0x5D \<notin> set post" by blast
    have "c \<noteq> 0x5B"
    proof
      assume "c = 0x5B"
      with None t(1,4) greedy_to_bracket_last [of post "pre @ 0x5B # mid"] show False by simp
    qed
    with t show ?thesis by (intro exI [of _ "c # pre"] exI [of _ mid] exI [of _ post]) simp
  qed
qed

lemma parse_prose_response: "JSON_parse prose_response = None"
  by code_simp

lemma parse_unwrapped: \<open>JSON_parse (js ''[{"text":"Q1"}]'') = Some (JArr [JObj [(js ''text'', JStr (js ''Q1''))]])\<close>
  by code_simp

lemma parse_wrapped_response:
  "JSON_parse wrapped_response
   = Some (JObj [(js ''questions'', JArr [JObj [(js ''text'', JStr (js ''Q1''))]])])"
  by code_simp

lemma parseQuestions_not_array:
  "JSON_parse s = Some v \<Longrightarrow> (\<And>xs. v \<noteq> JArr xs)
     \<Longrightarrow> parseQuestions ToString (JStr s)
         = Inl (Error (js ''Generated content is not a valid array of questions''))"
  by (cases v) (auto simp: parseQuestions_def)

subsection \<open>The answer key\<close>

text \<open>
  C3. With four options, the letters \<open>A\<close>, \<open>B\<close>, \<open>C\<close>, \<open>D\<close> map to the indices 0, 1, 2,
  3: the index \<open>i\<close> is the one whose letter (the code unit \<open>65 + i\<close>) is the given
  letter. The options are arbitrary, and any other four options give the same index:
  the mapping goes by position, not by what the options say.
\<close>

theorem answer_index_letters:
  assumes "length os = 4"
  shows "answer_index os (JStr (js ''A'')) = 0 \<and> answer_index os (JStr (js ''B'')) = 1
       \<and> answer_index os (JStr (js ''C'')) = 2 \<and> answer_index os (JStr (js ''D'')) = 3
       \<and> (\<forall>i<4. answer_index os (JStr (fromCharCode (65 + i))) = int i)
       \<and> (\<forall>os'. length os' = 4 \<longrightarrow> (\<forall>ca. answer_index os' ca = answer_index os ca))"
proof -
  have pos: "answer_index os (JStr (fromCharCode (65 + i))) = int i" if "i < 4" for i
    using that assms by (intro answer_index_position) simp_all
  have "answer_index os' ca = answer_index os ca" if "length os' = 4" for os' ca
    using that assms by (simp add: answer_index_def findIndex_def)
  with pos [of 0] pos [of 1] pos [of 2] pos [of 3] pos show ?thesis
    by (simp add: js_letters)
qed

theorem answer_index_letters_witness:
  "answer_index [JStr (js ''x''), JStr (js ''y''), JStr (js ''z''), JStr (js ''w'')] (JStr (js ''C'')) = 2"
  using answer_index_letters [of "[JStr (js ''x''), JStr (js ''y''), JStr (js ''z''), JStr (js ''w'')]"]
  by simp

text \<open>
  C4. In the document path, a question whose \<open>correct_answer\<close> is the letter of no option
  position gets the index \<open>-1\<close>; building its insertion does not fail, and the insertion
  issued for it carries \<open>-1\<close> as \<open>correct_answer\<close>. (The questions before it are those
  whose insertion could be built: the loop stops at the first one that throws.)
\<close>

theorem unmatched_letter_gives_minus_one:
  assumes "extractedText \<noteq> []"
    and "requestQuestions ToString apiKey fetched = Inr qs"
    and "i < length qs"
    and "\<And>j. j < i \<Longrightarrow> \<exists>r. mcq_insertion subjectId (Some uid) (qs ! j) = Inr r"
    and "qs ! i = JObj kvs"
    and "own_property kvs (js ''options'') = JArr os"
    and "\<And>idx. idx < length os \<Longrightarrow> own_property kvs (js ''correct_answer'') \<noteq> JStr (fromCharCode (65 + idx))"
  shows "answer_index os (own_property kvs (js ''correct_answer'')) = - 1
       \<and> i < length (issued (handleGenerateMCQs ToString fetched addQuestion apiKey subjectId
                               (Some uid) extractedText))
       \<and> nq_correct_answer (issued (handleGenerateMCQs ToString fetched addQuestion apiKey subjectId
                               (Some uid) extractedText) ! i) = JNum (- 1)"
proof -
  have none: "answer_index os (own_property kvs (js ''correct_answer'')) = - 1"
    unfolding answer_index_def using assms(7) by (intro findIndex_none) fastforce
  let ?r = "\<lparr>nq_text = own_property kvs (js ''text''), nq_options = JArr os,
              nq_correct_answer = JNum (of_int (answer_index os (own_property kvs (js ''correct_answer'')))),
              nq_difficulty = (if truthy (own_property kvs (js ''difficulty''))
                               then own_property kvs (js ''difficulty'') else JStr (js ''medium'')),
              nq_subject_id = subjectId, nq_teacher_id = uid, nq_marks = 1\<rparr>"
  have "mcq_insertion subjectId (Some uid) (qs ! i) = Inr ?r"
    using assms(5,6) by (simp add: mcq_insertion_object)
  from collect_nth [where f = "mcq_insertion subjectId (Some uid)" and xs = qs and i = i,
      OF assms(3) assms(4) this]
  have "i < length (fst (collect (mcq_insertion subjectId (Some uid)) qs))"
    and "fst (collect (mcq_insertion subjectId (Some uid)) qs) ! i = ?r"
    by blast+
  with none show ?thesis
    by (simp add: issued_handleGenerateMCQs [OF assms(1,2)])
qed

theorem unmatched_letter_gives_minus_one_witness:
  "nq_correct_answer (issued (handleGenerateMCQs no_conversion (Inr \<lparr>status = 200, body = example_body\<rparr>)
      accepting (Some (js ''key'')) (js ''s1'') (Some (js ''t1'')) (js ''Plants make sugar.'')) ! 0)
   = JNum (- 1)"
proof -
  let ?os = "[JStr (js ''x''), JStr (js ''y''), JStr (js ''z''), JStr (js ''w'')]"
  let ?kvs = "[(js ''text'', JStr (js ''Q1'')), (js ''options'', JArr ?os),
               (js ''correct_answer'', JStr (js ''E'')), (js ''difficulty'', JStr [])]"
  have text_arg: "js ''Plants make sugar.'' \<noteq> []"
    by (simp add: js_def)
  have opts: "own_property ?kvs (js ''options'') = JArr ?os"
    by (simp add: own_property_def js_neq_simps)
  have no_match: "own_property ?kvs (js ''correct_answer'') \<noteq> JStr (fromCharCode (65 + idx))"
    if "idx < length ?os" for idx
    using that by (auto simp: own_property_def js_neq_simps fromCharCode_def js_def less_Suc_eq)
  from unmatched_letter_gives_minus_one [OF text_arg example_questions _ _ _ opts no_match,
      of 0 "js ''s1''" "js ''t1''" accepting]
  show ?thesis by (simp add: example_mcqs_def)
qed

subsection \<open>Failure of the completion service\<close>

text \<open>
  C7. In the document path, when the request was made (there is extracted text and an
  API key) and the service answers with a status outside 200 to 299, the handler's
  \<open>try\<close> ends with an \<open>Error\<close> whose message carries the status and the body; no
  \<open>addQuestion\<close> call is issued, so the question pool is as it was; the user sees the
  failure notification and the refresh callback is not called.
\<close>

theorem non_success_status_saves_nothing:
  assumes "extractedText \<noteq> []" and "apiKey = Some k" and "k \<noteq> []"
    and "fetched = Inr response" and "\<not> ok response"
  shows "raised (handleGenerateMCQs ToString fetched addQuestion apiKey subjectId user extractedText)
           = Some (Error (js ''API request failed with status ''
                          @ Number_toString (int (status response)) @ js '': '' @ body response))
       \<and> issued (handleGenerateMCQs ToString fetched addQuestion apiKey subjectId user extractedText) = []
       \<and> toasts (handleGenerateMCQs ToString fetched addQuestion apiKey subjectId user extractedText)
           = [ToastError (js ''Failed to generate MCQs'')]
       \<and> \<not> refreshed (handleGenerateMCQs ToString fetched addQuestion apiKey subjectId user extractedText)"
  using assms
  by (simp add: handleGenerateMCQs_def requestQuestions_def and_then_def finish_def)

theorem non_success_status_saves_nothing_witness:
  "raised (handleGenerateMCQs no_conversion (Inr \<lparr>status = 500, body = js ''Internal error''\<rparr>)
             accepting (Some (js ''key'')) (js ''s1'') (Some (js ''t1'')) (js ''Plants make sugar.''))
     = Some (Error (js ''API request failed with status 500: Internal error''))
   \<and> issued (handleGenerateMCQs no_conversion (Inr \<lparr>status = 500, body = js ''Internal error''\<rparr>)
             accepting (Some (js ''key'')) (js ''s1'') (Some (js ''t1'')) (js ''Plants make sugar.'')) = []"
  using non_success_status_saves_nothing [of "js ''Plants make sugar.''" "Some (js ''key'')" "js ''key''"
      "Inr \<lparr>status = 500, body = js ''Internal error''\<rparr>" "\<lparr>status = 500, body = js ''Internal error''\<rparr>"
      no_conversion accepting "js ''s1''" "Some (js ''t1'')"]
  by (simp add: ok_def js_def Number_toString_def)

subsection \<open>The difficulty of a saved question\<close>

text \<open>
  C10. In the document path the insertion for a question carries the question's
  \<open>difficulty\<close> when that value is truthy, and \<open>medium\<close> otherwise: a missing field
  and the empty string give \<open>medium\<close>, a non-empty string is kept as it is.
\<close>

theorem difficulty_defaults_to_medium:
  assumes "extractedText \<noteq> []"
    and "requestQuestions ToString apiKey fetched = Inr qs"
    and "i < length qs"
    and "\<And>j. j < i \<Longrightarrow> \<exists>r. mcq_insertion subjectId (Some uid) (qs ! j) = Inr r"
    and "qs ! i = JObj kvs"
    and "own_property kvs (js ''options'') = JArr os"
  shows "i < length (issued (handleGenerateMCQs ToString fetched addQuestion apiKey subjectId
                               (Some uid) extractedText))
       \<and> nq_difficulty (issued (handleGenerateMCQs ToString fetched addQuestion apiKey subjectId
                               (Some uid) extractedText) ! i)
           = (if truthy (own_property kvs (js ''difficulty'')) then own_property kvs (js ''difficulty'')
              else JStr (js ''medium''))
       \<and> (js ''difficulty'' \<notin> fst ` set kvs \<longrightarrow>
            nq_difficulty (issued (handleGenerateMCQs ToString fetched addQuestion apiKey subjectId
                               (Some uid) extractedText) ! i) = JStr (js ''medium''))
       \<and> (own_property kvs (js ''difficulty'') = JStr [] \<longrightarrow>
            nq_difficulty (issued (handleGenerateMCQs ToString fetched addQuestion apiKey subjectId
                               (Some uid) extractedText) ! i) = JStr (js ''medium''))
       \<and> (\<forall>s. s \<noteq> [] \<and> own_property kvs (js ''difficulty'') = JStr s \<longrightarrow>
            nq_difficulty (issued (handleGenerateMCQs ToString fetched addQuestion apiKey subjectId
                               (Some uid) extractedText) ! i) = JStr s)"
proof -
  let ?out = "handleGenerateMCQs ToString fetched addQuestion apiKey subjectId (Some uid) extractedText"
  let ?d = "own_property kvs (js ''difficulty'')"
  let ?r = "\<lparr>nq_text = own_property kvs (js ''text''), nq_options = JArr os,
              nq_correct_answer = JNum (of_int (answer_index os (own_property kvs (js ''correct_answer'')))),
              nq_difficulty = (if truthy ?d then ?d else JStr (js ''medium'')),
              nq_subject_id = subjectId, nq_teacher_id = uid, nq_marks = 1\<rparr>"
  have "mcq_insertion subjectId (Some uid) (qs ! i) = Inr ?r"
    using assms(5,6) by (simp add: mcq_insertion_object)
  from collect_nth [where f = "mcq_insertion subjectId (Some uid)" and xs = qs and i = i,
      OF assms(3) assms(4) this]
  have len: "i < length (issued ?out)" and nth: "issued ?out ! i = ?r"
    by (simp_all add: issued_handleGenerateMCQs [OF assms(1,2)])
  have d: "nq_difficulty (issued ?out ! i) = (if truthy ?d then ?d else JStr (js ''medium''))"
    by (simp add: nth)
  have absent: "?d = JUndefined" if "js ''difficulty'' \<notin> fst ` set kvs"
    using that by (simp add: own_property_def map_of_eq_None_iff [THEN iffD2])
  from len d absent show ?thesis by auto
qed

theorem difficulty_defaults_to_medium_witness:
  "map nq_difficulty (issued (handleGenerateMCQs no_conversion (Inr \<lparr>status = 200, body = example_body\<rparr>)
      accepting (Some (js ''key'')) (js ''s1'') (Some (js ''t1'')) (js ''Plants make sugar.'')))
   = [JStr (js ''medium''), JStr (js ''hard'')]"
proof -
  let ?out = "handleGenerateMCQs no_conversion (Inr \<lparr>status = 200, body = example_body\<rparr>)
      accepting (Some (js ''key'')) (js ''s1'') (Some (js ''t1'')) (js ''Plants make sugar.'')"
  let ?os = "[JStr (js ''x''), JStr (js ''y''), JStr (js ''z''), JStr (js ''w'')]"
  let ?k0 = "[(js ''text'', JStr (js ''Q1'')), (js ''options'', JArr ?os),
              (js ''correct_answer'', JStr (js ''E'')), (js ''difficulty'', JStr [])]"
  let ?k1 = "[(js ''text'', JStr (js ''Q2'')), (js ''options'', JArr ?os),
              (js ''correct_answer'', JStr (js ''C'')), (js ''difficulty'', JStr (js ''hard''))]"
  have text_arg: "js ''Plants make sugar.'' \<noteq> []"
    by (simp add: js_def)
  have o0: "own_property ?k0 (js ''options'') = JArr ?os" and o1: "own_property ?k1 (js ''options'') = JArr ?os"
    by (simp_all add: own_property_def js_neq_simps)
  have q0: "example_mcqs ! 0 = JObj ?k0" and q1: "example_mcqs ! 1 = JObj ?k1"
    by (simp_all add: example_mcqs_def)
  have first: "\<exists>r. mcq_insertion (js ''s1'') (Some (js ''t1'')) (example_mcqs ! j) = Inr r" if "j < 1" for j
    using that o0 by (simp add: q0 mcq_insertion_object)
  have len: "length (issued ?out) = 2"
    by (simp add: issued_handleGenerateMCQs [OF text_arg example_questions] example_mcqs_def
        mcq_insertion_object o0 o1)
  from difficulty_defaults_to_medium [OF text_arg example_questions _ _ q0 o0,
      of "js ''s1''" "js ''t1''" accepting]
  have d0: "nq_difficulty (issued ?out ! 0) = JStr (js ''medium'')"
    by (simp add: example_mcqs_def own_property_def js_neq_simps)
  from difficulty_defaults_to_medium [OF text_arg example_questions _ first q1 o1,
      of accepting]
  have d1: "nq_difficulty (issued ?out ! 1) = JStr (js ''hard'')"
    by (simp add: example_mcqs_def own_property_def js_neq_simps js_def)
  from len obtain a b where ab: "issued ?out = [a, b]"
    by (auto simp: length_Suc_conv numeral_2_eq_2)
  with d0 d1 show ?thesis by simp
qed

subsection \<open>The topic path\<close>

text \<open>
  C1, as the code has it. In the topic path the \<open>correct_answer\<close> of a question is
  passed to the insertion as it is: for questions that are JSON objects, the insertions
  carry exactly the questions' \<open>correct_answer\<close> values, in order, whatever they are.
  There is no check against the range 0 to 3.
\<close>

theorem topic_answer_used_unchecked:
  assumes "trim topic \<noteq> []"
    and "generateQuestionsFromText generateContent topic (Some count) = Inr (JArr qs)"
    and "\<forall>q\<in>set qs. \<exists>kvs. q = JObj kvs"
  shows "map nq_correct_answer
           (issued (handleGenerate generateContent addQuestion subjectId (Some uid) topic count))
         = map (\<lambda>q. case q of JObj kvs \<Rightarrow> own_property kvs (js ''correct_answer'') | _ \<Rightarrow> JUndefined) qs"
proof -
  have "collect (topic_insertion subjectId (Some uid)) qs
        = (map (\<lambda>q. projr (topic_insertion subjectId (Some uid) q)) qs, None)"
    using assms(3) by (intro collect_total) (auto simp: topic_insertion_object)
  then have "issued (handleGenerate generateContent addQuestion subjectId (Some uid) topic count)
        = map (\<lambda>q. projr (topic_insertion subjectId (Some uid) q)) qs"
    by (simp add: issued_handleGenerate [OF assms(1,2)])
  moreover have "nq_correct_answer (projr (topic_insertion subjectId (Some uid) q))
        = (case q of JObj kvs \<Rightarrow> own_property kvs (js ''correct_answer'') | _ \<Rightarrow> JUndefined)"
    if "q \<in> set qs" for q
    using that assms(3) by (auto simp: topic_insertion_object)
  ultimately show ?thesis by simp
qed

theorem topic_answer_used_unchecked_witness:
  "map nq_correct_answer
     (issued (handleGenerate (answering example_response) accepting (js ''s1'') (Some (js ''t1''))
        (js ''Photosynthesis'') 3))
   = [JNum 0, JNum 1, JNum 2]"
  using topic_answer_used_unchecked [OF trim_Photosynthesis example_generated,
      of accepting "js ''s1''" "js ''t1''"]
  by (simp add: example_objects_def own_property_def js_neq_simps)

text \<open>
  An integer outside 0 to 3 reaches the insertion unchanged: the response
  \<open>out_of_range_response\<close> has the answer 7, and 7 is what the insertion carries.
\<close>

theorem topic_answer_out_of_range_counterexample:
  "map nq_correct_answer
     (issued (handleGenerate (answering out_of_range_response) accepting (js ''s1'') (Some (js ''t1''))
        (js ''Photosynthesis'') 1))
   = [JNum 7]"
proof -
  have "generateQuestionsFromText (answering out_of_range_response) (js ''Photosynthesis'') (Some 1)
        = Inr (JArr
       [JObj [(js ''text'', JStr (js ''Q1'')),
              (js ''options'', JArr [JStr (js ''a''), JStr (js ''b''), JStr (js ''c''), JStr (js ''d'')]),
              (js ''correct_answer'', JNum 7), (js ''difficulty'', JStr (js ''easy''))]])"
    by (rule generateQuestionsFromText_parsed [OF _ parse_out_of_range_response]) simp
  from issued_handleGenerate [OF trim_Photosynthesis this]
  show ?thesis
    by (simp add: topic_insertion_object own_property_def js_neq_simps)
qed

text \<open>
  C8. When the generation succeeds with questions that are well formed (JSON objects; in
  the document path with an array of options), the insertions issued are, in order,
  exactly the ones built from the questions, one for each, and every one of them carries
  the teacher's id, the subject's id and the marks value 1. The first half is the topic
  path, the second the document path.
\<close>

theorem one_insertion_per_question:
  "(trim topic \<noteq> []
      \<and> generateQuestionsFromText generateContent topic (Some count) = Inr (JArr qs)
      \<and> (\<forall>q\<in>set qs. \<exists>kvs. q = JObj kvs)
    \<longrightarrow> map Inr (issued (handleGenerate generateContent addQuestion subjectId (Some uid) topic count))
          = map (topic_insertion subjectId (Some uid)) qs
        \<and> length (issued (handleGenerate generateContent addQuestion subjectId (Some uid) topic count))
          = length qs
        \<and> (\<forall>r\<in>set (issued (handleGenerate generateContent addQuestion subjectId (Some uid) topic count)).
              nq_teacher_id r = uid \<and> nq_subject_id r = subjectId \<and> nq_marks r = 1))
   \<and> (extractedText \<noteq> []
      \<and> requestQuestions ToString apiKey fetched = Inr qs'
      \<and> (\<forall>q\<in>set qs'. \<exists>kvs os. q = JObj kvs \<and> own_property kvs (js ''options'') = JArr os)
    \<longrightarrow> map Inr (issued (handleGenerateMCQs ToString fetched addQuestion apiKey subjectId (Some uid)
                          extractedText))
          = map (mcq_insertion subjectId (Some uid)) qs'
        \<and> length (issued (handleGenerateMCQs ToString fetched addQuestion apiKey subjectId (Some uid)
                          extractedText))
          = length qs'
        \<and> (\<forall>r\<in>set (issued (handleGenerateMCQs ToString fetched addQuestion apiKey subjectId (Some uid)
                          extractedText)).
              nq_teacher_id r = uid \<and> nq_subject_id r = subjectId \<and> nq_marks r = 1))"
proof (intro conjI impI; elim conjE)
  assume a: "trim topic \<noteq> []"
    "generateQuestionsFromText generateContent topic (Some count) = Inr (JArr qs)"
    "\<forall>q\<in>set qs. \<exists>kvs. q = JObj kvs"
  let ?out = "handleGenerate generateContent addQuestion subjectId (Some uid) topic count"
  let ?f = "topic_insertion subjectId (Some uid)"
  have built: "\<exists>y. ?f q = Inr y \<and> nq_teacher_id y = uid \<and> nq_subject_id y = subjectId \<and> nq_marks y = 1"
    if "q \<in> set qs" for q
    using that a(3) by (auto simp: topic_insertion_object)
  then have "collect ?f qs = (map (\<lambda>q. projr (?f q)) qs, None)"
    by (intro collect_total) blast
  then have iss: "issued ?out = map (\<lambda>q. projr (?f q)) qs"
    by (simp add: issued_handleGenerate [OF a(1,2)])
  show "map Inr (issued ?out) = map ?f qs"
    unfolding iss using built by (fastforce simp: comp_def)
  show "length (issued ?out) = length qs"
    by (simp add: iss)
  show "\<forall>r\<in>set (issued ?out). nq_teacher_id r = uid \<and> nq_subject_id r = subjectId \<and> nq_marks r = 1"
    unfolding iss using built by fastforce
next
  assume a: "extractedText \<noteq> []"
    "requestQuestions ToString apiKey fetched = Inr qs'"
    "\<forall>q\<in>set qs'. \<exists>kvs os. q = JObj kvs \<and> own_property kvs (js ''options'') = JArr os"
  let ?out = "handleGenerateMCQs ToString fetched addQuestion apiKey subjectId (Some uid) extractedText"
  let ?f = "mcq_insertion subjectId (Some uid)"
  have built: "\<exists>y. ?f q = Inr y \<and> nq_teacher_id y = uid \<and> nq_subject_id y = subjectId \<and> nq_marks y = 1"
    if "q \<in> set qs'" for q
    using that a(3) by (auto simp: mcq_insertion_object)
  then have "collect ?f qs' = (map (\<lambda>q. projr (?f q)) qs', None)"
    by (intro collect_total) blast
  then have iss: "issued ?out = map (\<lambda>q. projr (?f q)) qs'"
    by (simp add: issued_handleGenerateMCQs [OF a(1,2)])
  show "map Inr (issued ?out) = map ?f qs'"
    unfolding iss using built by (fastforce simp: comp_def)
  show "length (issued ?out) = length qs'"
    by (simp add: iss)
  show "\<forall>r\<in>set (issued ?out). nq_teacher_id r = uid \<and> nq_subject_id r = subjectId \<and> nq_marks r = 1"
    unfolding iss using built by fastforce
qed

theorem one_insertion_per_question_witness:
  "map (\<lambda>r. (nq_text r, nq_teacher_id r, nq_subject_id r, nq_marks r))
     (issued (handleGenerate (answering example_response) accepting (js ''s1'') (Some (js ''t1''))
        (js ''Photosynthesis'') 3))
   = [(JStr (js ''Q1''), js ''t1'', js ''s1'', 1), (JStr (js ''Q2''), js ''t1'', js ''s1'', 1),
      (JStr (js ''Q3''), js ''t1'', js ''s1'', 1)]
   \<and> map (\<lambda>r. (nq_text r, nq_teacher_id r, nq_subject_id r, nq_marks r))
     (issued (handleGenerateMCQs no_conversion (Inr \<lparr>status = 200, body = example_body\<rparr>)
        accepting (Some (js ''key'')) (js ''s1'') (Some (js ''t1'')) (js ''Plants make sugar.'')))
   = [(JStr (js ''Q1''), js ''t1'', js ''s1'', 1), (JStr (js ''Q2''), js ''t1'', js ''s1'', 1)]"
proof -
  let ?a = "issued (handleGenerate (answering example_response) accepting (js ''s1'') (Some (js ''t1''))
        (js ''Photosynthesis'') 3)"
  let ?b = "issued (handleGenerateMCQs no_conversion (Inr \<lparr>status = 200, body = example_body\<rparr>)
        accepting (Some (js ''key'')) (js ''s1'') (Some (js ''t1'')) (js ''Plants make sugar.''))"
  note inst = one_insertion_per_question [where topic = "js ''Photosynthesis''"
      and generateContent = "answering example_response" and count = 3 and qs = example_objects
      and addQuestion = accepting and subjectId = "js ''s1''" and uid = "js ''t1''"
      and extractedText = "js ''Plants make sugar.''" and ToString = no_conversion
      and apiKey = "Some (js ''key'')" and fetched = "Inr \<lparr>status = 200, body = example_body\<rparr>"
      and qs' = example_mcqs]
  have objects: "\<forall>q\<in>set example_objects. \<exists>kvs. q = JObj kvs"
    by (simp add: example_objects_def)
  have mcqs: "\<forall>q\<in>set example_mcqs. \<exists>kvs os. q = JObj kvs \<and> own_property kvs (js ''options'') = JArr os"
    by (simp add: example_mcqs_def own_property_def js_neq_simps)
  from inst [THEN conjunct1] trim_Photosynthesis example_generated objects
  have "map Inr ?a = map (topic_insertion (js ''s1'') (Some (js ''t1''))) example_objects"
    by blast
  also have "\<dots> = map Inr (map (\<lambda>q. projr (topic_insertion (js ''s1'') (Some (js ''t1'')) q)) example_objects)"
    by (simp add: example_objects_def topic_insertion_object)
  finally have "?a = map (\<lambda>q. projr (topic_insertion (js ''s1'') (Some (js ''t1'')) q)) example_objects"
    by (rule map_Inr_eq)
  then have a: "map (\<lambda>r. (nq_text r, nq_teacher_id r, nq_subject_id r, nq_marks r)) ?a
      = [(JStr (js ''Q1''), js ''t1'', js ''s1'', 1), (JStr (js ''Q2''), js ''t1'', js ''s1'', 1),
         (JStr (js ''Q3''), js ''t1'', js ''s1'', 1)]"
    by (simp add: example_objects_def topic_insertion_object own_property_def)
  from inst [THEN conjunct2] text_arg_nonempty example_questions mcqs
  have "map Inr ?b = map (mcq_insertion (js ''s1'') (Some (js ''t1''))) example_mcqs"
    by blast
  also have "\<dots> = map Inr (map (\<lambda>q. projr (mcq_insertion (js ''s1'') (Some (js ''t1'')) q)) example_mcqs)"
    by (simp add: example_mcqs_def mcq_insertion_object own_property_def js_neq_simps)
  finally have "?b = map (\<lambda>q. projr (mcq_insertion (js ''s1'') (Some (js ''t1'')) q)) example_mcqs"
    by (rule map_Inr_eq)
  then have b: "map (\<lambda>r. (nq_text r, nq_teacher_id r, nq_subject_id r, nq_marks r)) ?b
      = [(JStr (js ''Q1''), js ''t1'', js ''s1'', 1), (JStr (js ''Q2''), js ''t1'', js ''s1'', 1)]"
    by (simp add: example_mcqs_def mcq_insertion_object own_property_def js_neq_simps)
  from a b show ?thesis by simp
qed

subsection \<open>Parsing the response\<close>

text \<open>
  C2, as the code has it. Given the response text of the completion service: if the text
  parses as JSON, the parsed value is the result. If it does not, and the text is some
  prose without an opening bracket, a bracketed part, and some prose without a closing
  bracket, then the bracketed part (from the first opening to the last closing bracket)
  is what is parsed, and the result is what \<open>JSON.parse\<close> gives for that part alone. If
  the text does not parse and its bracketed part, if any, does not parse either, the call
  fails with an error.
\<close>

theorem response_normalisation:
  assumes "generateContent (prompt topic (case count of None \<Rightarrow> 5 | Some n \<Rightarrow> n)) = Inr t"
  shows "(\<forall>v. JSON_parse t = Some v \<longrightarrow>
            generateQuestionsFromText generateContent topic count = Inr v)
       \<and> (\<forall>pre mid post.
            JSON_parse t = None \<and> t = pre @ 0x5B # mid @ 0x5D # post
            \<and> 0x5B \<notin> set pre \<and> 0x5D \<notin> set post \<longrightarrow>
            match_brackets t = Some (0x5B # mid @ [0x5D])
            \<and> generateQuestionsFromText generateContent topic count
              = (case JSON_parse (0x5B # mid @ [0x5D]) of
                   Some v \<Rightarrow> Inr v
                 | None \<Rightarrow> Inl (Error (js ''Failed to generate questions''))))
       \<and> (JSON_parse t = None \<and> (\<forall>m. match_brackets t = Some m \<longrightarrow> JSON_parse m = None) \<longrightarrow>
            generateQuestionsFromText generateContent topic count
              = Inl (Error (js ''Failed to generate questions'')))"
proof (intro conjI allI impI)
  fix v assume "JSON_parse t = Some v"
  with assms show "generateQuestionsFromText generateContent topic count = Inr v"
    by (rule generateQuestionsFromText_parsed)
next
  fix pre mid post
  assume a: "JSON_parse t = None \<and> t = pre @ 0x5B # mid @ 0x5D # post
            \<and> 0x5B \<notin> set pre \<and> 0x5D \<notin> set post"
  then show m: "match_brackets t = Some (0x5B # mid @ [0x5D])"
    by (simp add: match_brackets_span)
  with a assms show "generateQuestionsFromText generateContent topic count
              = (case JSON_parse (0x5B # mid @ [0x5D]) of
                   Some v \<Rightarrow> Inr v
                 | None \<Rightarrow> Inl (Error (js ''Failed to generate questions'')))"
    by (simp add: generateQuestionsFromText_def and_then_def parseResponseText_def
        split: option.splits)
next
  assume "JSON_parse t = None \<and> (\<forall>m. match_brackets t = Some m \<longrightarrow> JSON_parse m = None)"
  with assms show "generateQuestionsFromText generateContent topic count
              = Inl (Error (js ''Failed to generate questions''))"
    by (simp add: generateQuestionsFromText_def and_then_def parseResponseText_def
        split: option.splits)
qed

theorem response_normalisation_witness:
  "generateQuestionsFromText (answering prose_response) (js ''Photosynthesis'') (Some 1)
   = Inr (JArr [JObj [(js ''text'', JStr (js ''Q1''))]])"
proof -
  let ?pre = "js ''Here are your questions:'' @ [0x0A]"
  let ?mid = \<open>js ''{"text":"Q1"}''\<close>
  have t: "prose_response = ?pre @ 0x5B # ?mid @ 0x5D # []"
    by (simp add: prose_response_def js_def)
  have pre: "0x5B \<notin> set ?pre"
    by (simp add: js_def)
  have arr: "0x5B # ?mid @ [0x5D] = js ''[{\"text\":\"Q1\"}]''"
    by (simp add: js_def)
  from response_normalisation [of "answering prose_response" "js ''Photosynthesis''" "Some 1" prose_response,
      THEN conjunct2, THEN conjunct1, rule_format, of ?pre ?mid "[]"]
    parse_prose_response t pre
  show ?thesis
    by (simp add: arr parse_unwrapped)
qed

text \<open>
  Prose that has brackets of its own breaks the recovery: the array in the response below
  is valid JSON, but the part from the first opening bracket starts in the prose, and the
  call fails.
\<close>

theorem bracket_prose_counterexample:
  \<open>JSON_parse (js ''[{"text":"Q1"}]'') = Some (JArr [JObj [(js ''text'', JStr (js ''Q1''))]])
   \<and> generateQuestionsFromText (answering bracket_prose_response) (js ''Photosynthesis'') (Some 1)
     = Inl (Error (js ''Failed to generate questions''))\<close>
  by code_simp

text \<open>
  C6 at the input where the topic path departs from it: the response is valid JSON but
  an object, not an array. \<open>generateQuestionsFromText\<close> returns the object as the
  question list; the handler stores it with \<open>setGeneratedQuestions\<close> and then fails in
  \<open>questions.map\<close>. (The document path does check: \<open>parseQuestions_not_array\<close>.)
\<close>

theorem non_array_returned_as_questions:
  "generateQuestionsFromText (answering wrapped_response) (js ''Photosynthesis'') (Some 1)
     = Inr (JObj [(js ''questions'', JArr [JObj [(js ''text'', JStr (js ''Q1''))]])])
   \<and> displayed (handleGenerate (answering wrapped_response) accepting (js ''s1'') (Some (js ''t1''))
        (js ''Photosynthesis'') 1)
     = Some (JObj [(js ''questions'', JArr [JObj [(js ''text'', JStr (js ''Q1''))]])])
   \<and> raised (handleGenerate (answering wrapped_response) accepting (js ''s1'') (Some (js ''t1''))
        (js ''Photosynthesis'') 1)
     = Some TypeError
   \<and> issued (handleGenerate (answering wrapped_response) accepting (js ''s1'') (Some (js ''t1''))
        (js ''Photosynthesis'') 1)
     = []"
proof -
  have "generateQuestionsFromText (answering wrapped_response) (js ''Photosynthesis'') (Some 1)
     = Inr (JObj [(js ''questions'', JArr [JObj [(js ''text'', JStr (js ''Q1''))]])])"
    by (rule generateQuestionsFromText_parsed [OF _ parse_wrapped_response]) simp
  with trim_Photosynthesis show ?thesis
    by (simp add: handleGenerate_def finish_def)
qed

text \<open>
  C9. \<open>generateQuestionsFromDocument\<close> gives for every document text and every count
  (given or left out) what \<open>generateQuestionsFromText\<close> gives: the same questions, or
  the same failure.
\<close>

theorem document_path_delegates:
  "generateQuestionsFromDocument generateContent documentText count
   = generateQuestionsFromText generateContent documentText count"
  by (cases count) (simp_all add: generateQuestionsFromDocument_def generateQuestionsFromText_def)

subsection \<open>The selection view\<close>

text \<open>
  C5. For every pool and every list of selected questions (so after every change of the
  selection), the available questions are the questions of the pool whose id is not the
  id of a selected question. So no id is both available and selected; when the selected
  questions are of the pool, the available and the selected ids together are the ids of
  the pool; and only the ids of the selected questions matter, not their other fields.
\<close>

theorem available_is_complement:
  "q_id ` set (availableQuestions questions selectedQuestions) \<inter> q_id ` set selectedQuestions = {}
   \<and> set (availableQuestions questions selectedQuestions)
       = {q \<in> set questions. q_id q \<notin> q_id ` set selectedQuestions}
   \<and> (q_id ` set selectedQuestions \<subseteq> q_id ` set questions \<longrightarrow>
        q_id ` set (availableQuestions questions selectedQuestions) \<union> q_id ` set selectedQuestions
        = q_id ` set questions)
   \<and> (\<forall>selected'. map q_id selected' = map q_id selectedQuestions \<longrightarrow>
        availableQuestions questions selected' = availableQuestions questions selectedQuestions)"
proof -
  have mem: "set (availableQuestions questions selectedQuestions)
       = {q \<in> set questions. q_id q \<notin> q_id ` set selectedQuestions}"
    by (auto simp: availableQuestions_def)
  have disj: "q_id ` set (availableQuestions questions selectedQuestions) \<inter> q_id ` set selectedQuestions = {}"
    unfolding mem by auto
  have un: "q_id ` set (availableQuestions questions selectedQuestions) \<union> q_id ` set selectedQuestions
        = q_id ` set questions" if "q_id ` set selectedQuestions \<subseteq> q_id ` set questions"
    unfolding mem using that by auto
  have same: "availableQuestions questions selected' = availableQuestions questions selectedQuestions"
    if "map q_id selected' = map q_id selectedQuestions" for selected'
    using that by (simp add: availableQuestions_def)
  from mem disj un same show ?thesis by blast
qed

theorem available_is_complement_witness:
  "q_id ` set (availableQuestions example_pool [(example_pool ! 1)\<lparr>q_marks := 5\<rparr>])
     \<union> q_id ` set [(example_pool ! 1)\<lparr>q_marks := 5\<rparr>] = q_id ` set example_pool
   \<and> map q_id (availableQuestions example_pool [(example_pool ! 1)\<lparr>q_marks := 5\<rparr>]) = [js ''q1'', js ''q3'']"
proof -
  have sub: "q_id ` set [(example_pool ! 1)\<lparr>q_marks := 5\<rparr>] \<subseteq> q_id ` set example_pool"
    by (simp add: example_pool_def)
  have "map q_id (availableQuestions example_pool [(example_pool ! 1)\<lparr>q_marks := 5\<rparr>]) = [js ''q1'', js ''q3'']"
    by (simp add: example_pool_def availableQuestions_def js_def)
  with available_is_complement [of example_pool "[(example_pool ! 1)\<lparr>q_marks := 5\<rparr>]"] sub
  show ?thesis by blast
qed

end
